theory Spec2Isabelle
  imports Complex_Main "HOL-Library.Word"
begin

section \<open>The native frame-processing core of the edge-detection viewer\<close>

text \<open>
  The development embeds \<^verbatim>\<open>app/src/main/cpp/native-lib.cpp\<close> and
  \<^verbatim>\<open>app/src/main/cpp/opencv_processing.cpp\<close>. The JNI entry points become functions
  on an explicit process state: the Java heap of byte arrays, the global
  \<^verbatim>\<open>lastProcessingTime\<close> and the Android log. What the JNI runtime and the clock decide
  for one call (whether the array elements can be obtained, whether the output array can
  be allocated, the two clock readings) is an argument of the call. The OpenCV routines
  are not part of the repository: they are an argument as well, a record of functions
  that either return a matrix or throw a \<^verbatim>\<open>cv::Exception\<close>.
\<close>

subsection \<open>JNI types\<close>

type_synonym jbyte = "8 word"
type_synonym uchar = "8 word"
type_synonym jint = "32 word"
type_synonym jsize = "32 word"

text \<open>A \<^verbatim>\<open>jbyteArray\<close> is a reference into the Java heap; the heap is the list of its byte arrays.\<close>

type_synonym jbyteArray = nat
type_synonym java_heap = "jbyte list list"

datatype release_mode = JNI_COPY_BACK | JNI_COMMIT | JNI_ABORT

subsection \<open>The Android log\<close>

datatype log_priority = ANDROID_LOG_INFO | ANDROID_LOG_ERROR

datatype log_arg = IntArg int | StrArg string

text \<open>One log line: priority, tag, format string and the arguments of the format.\<close>

datatype log_line = LogLine log_priority string string "log_arg list"

subsection \<open>OpenCV matrices and the library interface\<close>

datatype mat_type = CV_8UC1 | CV_8UC3 | CV_8UC4

fun CV_MAT_CN :: "mat_type \<Rightarrow> nat" where
  "CV_MAT_CN CV_8UC1 = 1"
| "CV_MAT_CN CV_8UC3 = 3"
| "CV_MAT_CN CV_8UC4 = 4"

record Mat =
  rows :: int
  cols :: int
  mtype :: mat_type
  data :: "uchar list"

definition channels :: "Mat \<Rightarrow> nat" where
  "channels m = CV_MAT_CN (mtype m)"

text \<open>The default-constructed \<^verbatim>\<open>cv::Mat\<close>: no rows, no columns, no data.\<close>

definition empty_Mat :: Mat where
  "empty_Mat = \<lparr>rows = 0, cols = 0, mtype = CV_8UC1, data = []\<rparr>"

datatype cv_Exception = cv_Exception (code: int) (what: string)

datatype color_code =
    COLOR_RGBA2GRAY | COLOR_GRAY2RGBA
  | COLOR_RGBA2BGR | COLOR_BGR2GRAY | COLOR_GRAY2BGR | COLOR_BGR2RGBA

text \<open>
  The OpenCV calls the two source files make. Each takes its source matrix by value and
  returns the destination matrix or the exception it throws; \<open>CV_VERSION\<close> is the
  library's version macro.
\<close>

record opencv =
  CV_VERSION :: string
  cvtColor :: "Mat \<Rightarrow> color_code \<Rightarrow> cv_Exception + Mat"
  GaussianBlur :: "Mat \<Rightarrow> nat \<times> nat \<Rightarrow> rat \<Rightarrow> cv_Exception + Mat"
  Canny :: "Mat \<Rightarrow> rat \<Rightarrow> rat \<Rightarrow> cv_Exception + Mat"
  copyTo :: "Mat \<Rightarrow> cv_Exception + Mat"

subsection \<open>Process state and the environment of one call\<close>

record process_state =
  java_heap :: java_heap
  lastProcessingTime :: int
  logcat :: "log_line list"

text \<open>
  \<^verbatim>\<open>static long lastProcessingTime = 0;\<close> The count of milliseconds is read as an
  unbounded integer.
\<close>

definition initial_state :: "java_heap \<Rightarrow> process_state" where
  "initial_state h = \<lparr>java_heap = h, lastProcessingTime = 0, logcat = []\<rparr>"

text \<open>
  What the runtime decides during one call of \<^verbatim>\<open>processFrameBytes\<close>: whether
  \<^verbatim>\<open>GetByteArrayElements\<close> and \<^verbatim>\<open>NewByteArray\<close> succeed, and the two readings of
  \<^verbatim>\<open>high_resolution_clock::now()\<close> in nanoseconds.
\<close>

record jni_env =
  elements_available :: bool
  array_allocated :: bool
  startTime :: int
  endTime :: int

datatype outcome =
    Returned "jbyteArray option"
  | Uncaught cv_Exception
  | Fault

subsection \<open>Logging macros\<close>

definition LOGI :: "string \<Rightarrow> log_arg list \<Rightarrow> process_state \<Rightarrow> process_state" where
  "LOGI fmt args s = s\<lparr>logcat := logcat s @ [LogLine ANDROID_LOG_INFO ''NativeLib'' fmt args]\<rparr>"

definition LOGE :: "string \<Rightarrow> log_arg list \<Rightarrow> process_state \<Rightarrow> process_state" where
  "LOGE fmt args s = s\<lparr>logcat := logcat s @ [LogLine ANDROID_LOG_ERROR ''NativeLib'' fmt args]\<rparr>"

text \<open>\<^verbatim>\<open>LOGI\<close> of \<^verbatim>\<open>opencv_processing.cpp\<close>, whose tag is \<^verbatim>\<open>OpenCVProcessing\<close>.\<close>

definition LOGI_cv :: "string \<Rightarrow> log_arg list \<Rightarrow> process_state \<Rightarrow> process_state" where
  "LOGI_cv fmt args s =
     s\<lparr>logcat := logcat s @ [LogLine ANDROID_LOG_INFO ''OpenCVProcessing'' fmt args]\<rparr>"

subsection \<open>JNI functions\<close>

definition GetArrayLength :: "java_heap \<Rightarrow> jbyteArray \<Rightarrow> jsize" where
  "GetArrayLength h arr = word_of_nat (length (h ! arr))"

definition GetByteArrayElements :: "jni_env \<Rightarrow> java_heap \<Rightarrow> jbyteArray \<Rightarrow> jbyte list option" where
  "GetByteArrayElements env h arr = (if elements_available env then Some (h ! arr) else None)"

text \<open>
  \<^verbatim>\<open>ReleaseByteArrayElements\<close>: with \<^verbatim>\<open>JNI_ABORT\<close> the native buffer is dropped, with the
  other modes it is copied back into the array.
\<close>

fun ReleaseByteArrayElements ::
  "java_heap \<Rightarrow> jbyteArray \<Rightarrow> jbyte list \<Rightarrow> release_mode \<Rightarrow> java_heap" where
  "ReleaseByteArrayElements h arr elems JNI_ABORT = h"
| "ReleaseByteArrayElements h arr elems JNI_COPY_BACK = h[arr := elems]"
| "ReleaseByteArrayElements h arr elems JNI_COMMIT = h[arr := elems]"

text \<open>
  \<^verbatim>\<open>NewByteArray\<close>: a fresh zero-filled array at the end of the heap, or null when the
  allocation fails or the length is negative.
\<close>

definition NewByteArray :: "jni_env \<Rightarrow> java_heap \<Rightarrow> jsize \<Rightarrow> (jbyteArray \<times> java_heap) option" where
  "NewByteArray env h n =
     (if array_allocated env \<and> 0 \<le> sint n
      then Some (length h, h @ [replicate (nat (sint n)) 0])
      else None)"

text \<open>
  \<^verbatim>\<open>SetByteArrayRegion(array, start, len, buf)\<close> copies \<open>len\<close> bytes from the native
  buffer into the array. \<open>None\<close> stands for a region outside the array or a read past
  the end of the native buffer.
\<close>

definition SetByteArrayRegion ::
  "java_heap \<Rightarrow> jbyteArray \<Rightarrow> nat \<Rightarrow> jsize \<Rightarrow> jbyte list \<Rightarrow> java_heap option" where
  "SetByteArrayRegion h arr start len buf =
     (if arr < length h \<and> 0 \<le> sint len \<and> start + nat (sint len) \<le> length (h ! arr)
         \<and> nat (sint len) \<le> length buf
      then Some (h[arr := take start (h ! arr) @ take (nat (sint len)) buf
                          @ drop (start + nat (sint len)) (h ! arr)])
      else None)"

text \<open>
  \<^verbatim>\<open>duration_cast<milliseconds>(endTime - startTime).count()\<close> on nanosecond readings:
  integer division that truncates towards zero.
\<close>

definition duration_ms :: "int \<Rightarrow> int \<Rightarrow> int" where
  "duration_ms t0 t1 = sgn (t1 - t0) * (\<bar>t1 - t0\<bar> div 1000000)"

subsection \<open>\<^verbatim>\<open>native-lib.cpp\<close>\<close>

definition getOpenCVVersion :: "opencv \<Rightarrow> process_state \<Rightarrow> string \<times> process_state" where
  "getOpenCVVersion cv s =
     (let version = CV_VERSION cv
      in (version, LOGI ''OpenCV version: %s'' [StrArg version] s))"

definition isOpenCVAvailable :: "process_state \<Rightarrow> bool \<times> process_state" where
  "isOpenCVAvailable s = (True, s)"

definition getProcessingTime :: "process_state \<Rightarrow> int \<times> process_state" where
  "getProcessingTime s = (lastProcessingTime s, s)"

text \<open>
  STEP 5 of \<^verbatim>\<open>processFrameBytes\<close>: the edge-detection recipe or the passthrough copy.
  The function has no \<^verbatim>\<open>try\<close> block, so an exception of any OpenCV call leaves it.
\<close>

definition applyStep5 ::
  "opencv \<Rightarrow> Mat \<Rightarrow> jint \<Rightarrow> jint \<Rightarrow> bool \<Rightarrow> process_state \<Rightarrow> (cv_Exception + Mat) \<times> process_state" where
  "applyStep5 cv inputMat width height applyEdgeDetection s =
     (if applyEdgeDetection then
        let s1 = LOGI ''Applying edge detection to %dx%d image''
                   [IntArg (sint width), IntArg (sint height)] s
        in case cvtColor cv inputMat COLOR_RGBA2GRAY of
             Inl e \<Rightarrow> (Inl e, s1)
           | Inr grayMat \<Rightarrow>
        (case GaussianBlur cv grayMat (5, 5) (3 / 2) of
             Inl e \<Rightarrow> (Inl e, s1)
           | Inr blurredMat \<Rightarrow>
        (case Canny cv blurredMat 50 150 of
             Inl e \<Rightarrow> (Inl e, s1)
           | Inr edgesMat \<Rightarrow>
        (case cvtColor cv edgesMat COLOR_GRAY2RGBA of
             Inl e \<Rightarrow> (Inl e, s1)
           | Inr outputMat \<Rightarrow>
               (Inr outputMat,
                LOGI ''Edge detection completed: %dx%d, %d channels''
                  [IntArg (cols outputMat), IntArg (rows outputMat),
                   IntArg (int (channels outputMat))] s1))))
      else
        let s1 = LOGI ''Passthrough mode: %dx%d image''
                   [IntArg (sint width), IntArg (sint height)] s
        in case copyTo cv inputMat of
             Inl e \<Rightarrow> (Inl e, s1)
           | Inr outputMat \<Rightarrow> (Inr outputMat, s1))"

text \<open>
  \<^verbatim>\<open>Java_com_example_edgedetectionviewer_NativeProcessor_processFrameBytes\<close>.
  \<open>width * height * 4\<close> is a product of 32-bit integers. A reference that is not in the
  heap, and a \<^verbatim>\<open>SetByteArrayRegion\<close> that reads past the output matrix, end in \<open>Fault\<close>.
\<close>

definition processFrameBytes ::
  "opencv \<Rightarrow> jni_env \<Rightarrow> jbyteArray \<Rightarrow> jint \<Rightarrow> jint \<Rightarrow> bool \<Rightarrow> process_state
     \<Rightarrow> outcome \<times> process_state" where
  "processFrameBytes cv env imageData width height applyEdgeDetection s =
     (if length (java_heap s) \<le> imageData then (Fault, s)
      else
        let inputLength = GetArrayLength (java_heap s) imageData;
            expectedLength = width * height * 4
        in if inputLength \<noteq> expectedLength then
             (Returned None,
              LOGE ''Input array length mismatch: expected %d, got %d''
                [IntArg (sint expectedLength), IntArg (sint inputLength)] s)
           else
             case GetByteArrayElements env (java_heap s) imageData of
               None \<Rightarrow> (Returned None, LOGE ''Failed to get byte array elements'' [] s)
             | Some inputBytes \<Rightarrow>
                 let inputMat = \<lparr>rows = sint height, cols = sint width,
                                 mtype = CV_8UC4, data = inputBytes\<rparr>
                 in if rows inputMat \<noteq> sint height \<or> cols inputMat \<noteq> sint width
                       \<or> channels inputMat \<noteq> 4 then
                      let s1 = LOGE ''Mat validation failed: %dx%d, %d channels''
                                 [IntArg (cols inputMat), IntArg (rows inputMat),
                                  IntArg (int (channels inputMat))] s
                      in (Returned None,
                          s1\<lparr>java_heap := ReleaseByteArrayElements (java_heap s1)
                                             imageData inputBytes JNI_ABORT\<rparr>)
                    else
                     (case applyStep5 cv inputMat width height applyEdgeDetection s of
                        (Inl e, s1) \<Rightarrow> (Uncaught e, s1)
                      | (Inr outputMat, s1) \<Rightarrow>
                          let outputSize = height * width * 4
                          in (case NewByteArray env (java_heap s1) outputSize of
                               None \<Rightarrow>
                                 let s2 = LOGE ''Failed to create output byte array'' [] s1
                                 in (Returned None,
                                     s2\<lparr>java_heap := ReleaseByteArrayElements (java_heap s2)
                                                        imageData inputBytes JNI_ABORT\<rparr>)
                             | Some (outputArray, h1) \<Rightarrow>
                                 (case SetByteArrayRegion h1 outputArray 0 outputSize
                                         (data outputMat) of
                                    None \<Rightarrow> (Fault, s1\<lparr>java_heap := h1\<rparr>)
                                  | Some h2 \<Rightarrow>
                                      let h3 = ReleaseByteArrayElements h2 imageData
                                                 inputBytes JNI_ABORT;
                                          s2 = s1\<lparr>java_heap := h3,
                                                 lastProcessingTime :=
                                                   duration_ms (startTime env) (endTime env)\<rparr>
                                      in (Returned (Some outputArray),
                                          LOGI ''Frame processed in %ld ms''
                                            [IntArg (lastProcessingTime s2)] s2)))))"

text \<open>The legacy bitmap entry point \<^verbatim>\<open>processFrame\<close>: it only logs.\<close>

definition processFrame :: "process_state \<Rightarrow> process_state" where
  "processFrame s = LOGI ''Legacy processFrame method called'' [] s"

subsection \<open>\<^verbatim>\<open>opencv_processing.cpp\<close>\<close>

text \<open>
  \<^verbatim>\<open>processFrameWithCanny\<close>: the recipe inside a \<^verbatim>\<open>try\<close> block whose handler copies the
  input to the output. An exception of the copy in the handler leaves the function.
\<close>

definition processFrameWithCanny_try :: "opencv \<Rightarrow> Mat \<Rightarrow> cv_Exception + Mat" where
  "processFrameWithCanny_try cv inputMat =
     (case cvtColor cv inputMat COLOR_RGBA2BGR of
        Inl e \<Rightarrow> Inl e
      | Inr bgrMat \<Rightarrow>
     (case cvtColor cv bgrMat COLOR_BGR2GRAY of
        Inl e \<Rightarrow> Inl e
      | Inr grayMat \<Rightarrow>
     (case GaussianBlur cv grayMat (5, 5) (3 / 2) of
        Inl e \<Rightarrow> Inl e
      | Inr blurredMat \<Rightarrow>
     (let lowThreshold = 50; highThreshold = 150
      in case Canny cv blurredMat lowThreshold highThreshold of
        Inl e \<Rightarrow> Inl e
      | Inr edgesMat \<Rightarrow>
     (case cvtColor cv edgesMat COLOR_GRAY2BGR of
        Inl e \<Rightarrow> Inl e
      | Inr edgesBgr \<Rightarrow> cvtColor cv edgesBgr COLOR_BGR2RGBA)))))"

definition processFrameWithCanny ::
  "opencv \<Rightarrow> Mat \<Rightarrow> process_state \<Rightarrow> (cv_Exception + Mat) \<times> process_state" where
  "processFrameWithCanny cv inputMat s =
     (case processFrameWithCanny_try cv inputMat of
        Inr outputMat \<Rightarrow>
          (Inr outputMat, LOGI_cv ''Canny edge detection applied successfully'' [] s)
      | Inl e \<Rightarrow>
          (copyTo cv inputMat, LOGI_cv ''OpenCV exception: %s'' [StrArg (what e)] s))"

section \<open>The native interface as a state machine\<close>

text \<open>The five native methods of \<^verbatim>\<open>NativeProcessor\<close>, and what each returns.\<close>

datatype native_call =
    GetOpenCVVersion
  | IsOpenCVAvailable
  | GetProcessingTime
  | ProcessFrameBytes jni_env jbyteArray jint jint bool
  | ProcessFrame

datatype native_result =
    String_result string
  | Boolean_result bool
  | Long_result int
  | Frame_result outcome
  | Void_result

fun invoke :: "opencv \<Rightarrow> native_call \<Rightarrow> process_state \<Rightarrow> native_result \<times> process_state" where
  "invoke cv GetOpenCVVersion s = (String_result (fst (getOpenCVVersion cv s)),
                                    snd (getOpenCVVersion cv s))"
| "invoke cv IsOpenCVAvailable s = (Boolean_result (fst (isOpenCVAvailable s)),
                                     snd (isOpenCVAvailable s))"
| "invoke cv GetProcessingTime s = (Long_result (fst (getProcessingTime s)),
                                     snd (getProcessingTime s))"
| "invoke cv (ProcessFrameBytes env imageData width height applyEdgeDetection) s =
     (Frame_result (fst (processFrameBytes cv env imageData width height applyEdgeDetection s)),
      snd (processFrameBytes cv env imageData width height applyEdgeDetection s))"
| "invoke cv ProcessFrame s = (Void_result, processFrame s)"

text \<open>An uncaught C++ exception or a fault ends the process.\<close>

fun terminated :: "native_result \<Rightarrow> bool" where
  "terminated (Frame_result (Uncaught e)) = True"
| "terminated (Frame_result Fault) = True"
| "terminated r = False"

text \<open>
  What happens to the process over time: the Java side allocates a byte array (a
  camera frame), or it calls a native method.
\<close>

datatype event = Java_allocates "jbyte list" | Native native_call

fun run :: "opencv \<Rightarrow> event list \<Rightarrow> process_state \<Rightarrow> process_state" where
  "run cv [] s = s"
| "run cv (Java_allocates bytes # es) s = run cv es (s\<lparr>java_heap := java_heap s @ [bytes]\<rparr>)"
| "run cv (Native c # es) s =
     (if terminated (fst (invoke cv c s)) then snd (invoke cv c s)
      else run cv es (snd (invoke cv c s)))"

text \<open>
  On Android \<^verbatim>\<open>high_resolution_clock\<close> is the steady clock: a later reading is not
  smaller than an earlier one.
\<close>

fun steady_clock :: "event \<Rightarrow> bool" where
  "steady_clock (Native (ProcessFrameBytes env imageData width height applyEdgeDetection)) =
     (startTime env \<le> endTime env)"
| "steady_clock e = True"

text \<open>
  The call left \<^verbatim>\<open>processFrameBytes\<close> at STEP 1: it returned null and its only effect
  is the log line of the length mismatch.
\<close>

definition rejected_at_step1 ::
  "opencv \<Rightarrow> jni_env \<Rightarrow> jbyteArray \<Rightarrow> jint \<Rightarrow> jint \<Rightarrow> bool \<Rightarrow> process_state \<Rightarrow> bool" where
  "rejected_at_step1 cv env imageData width height applyEdgeDetection s \<longleftrightarrow>
     processFrameBytes cv env imageData width height applyEdgeDetection s =
       (Returned None,
        LOGE ''Input array length mismatch: expected %d, got %d''
          [IntArg (sint (width * height * 4)),
           IntArg (sint (GetArrayLength (java_heap s) imageData))] s)"

section \<open>What the development assumes of OpenCV\<close>

text \<open>
  The properties of the edge map and of the passthrough copy depend on what the OpenCV
  routines compute, and OpenCV is not among the source files. They are stated for every
  library that meets the contracts below. Each contract is modelled from the
  specification's description of the step, which agrees with the documented behaviour of
  the routine on 8-bit matrices. A contract includes that the call returns: running out
  of memory inside OpenCV is outside it.

  A matrix is continuous when it has rows and columns and its buffer holds exactly
  \<open>rows * cols * channels\<close> bytes, row after row.
\<close>

definition continuous_Mat :: "Mat \<Rightarrow> bool" where
  "continuous_Mat m \<longleftrightarrow>
     0 < rows m \<and> 0 < cols m \<and> length (data m) = nat (rows m) * nat (cols m) * channels m"

definition same_size :: "Mat \<Rightarrow> Mat \<Rightarrow> bool" where
  "same_size a b \<longleftrightarrow> rows a = rows b \<and> cols a = cols b"

text \<open>
  Modelled from the spec: \<^verbatim>\<open>cv::cvtColor\<close> with \<^verbatim>\<open>COLOR_RGBA2GRAY\<close> is missing from
  the sources. "Color reduction: convert the 4-channel color image to a single-channel
  intensity image", of the same width and height.
\<close>

definition RGBA2GRAY_contract :: "opencv \<Rightarrow> bool" where
  "RGBA2GRAY_contract cv \<longleftrightarrow>
     (\<forall>m. continuous_Mat m \<and> mtype m = CV_8UC4 \<longrightarrow>
        (\<exists>g. cvtColor cv m COLOR_RGBA2GRAY = Inr g
           \<and> continuous_Mat g \<and> mtype g = CV_8UC1 \<and> same_size g m))"

text \<open>
  Modelled from the spec: \<^verbatim>\<open>cv::GaussianBlur\<close> is missing from the sources. "Noise
  suppression: [...] a 5x5 kernel with a smoothing parameter of 1.5, applied to the
  single-channel image, producing a smoothed single-channel image of the same
  dimensions."
\<close>

definition GaussianBlur_contract :: "opencv \<Rightarrow> bool" where
  "GaussianBlur_contract cv \<longleftrightarrow>
     (\<forall>m. continuous_Mat m \<and> mtype m = CV_8UC1 \<longrightarrow>
        (\<exists>b. GaussianBlur cv m (5, 5) (3 / 2) = Inr b
           \<and> continuous_Mat b \<and> mtype b = CV_8UC1 \<and> same_size b m))"

text \<open>
  Modelled from the spec: \<^verbatim>\<open>cv::Canny\<close> is missing from the sources. "Edge extraction:
  [...] low threshold 50, high threshold 150 [...], producing a binary single-channel
  edge map where each pixel is either 0 (no edge) or 255 (edge)", of the same width and
  height.
\<close>

definition Canny_contract :: "opencv \<Rightarrow> bool" where
  "Canny_contract cv \<longleftrightarrow>
     (\<forall>m. continuous_Mat m \<and> mtype m = CV_8UC1 \<longrightarrow>
        (\<exists>e. Canny cv m 50 150 = Inr e
           \<and> continuous_Mat e \<and> mtype e = CV_8UC1 \<and> same_size e m
           \<and> set (data e) \<subseteq> {0, 255}))"

text \<open>
  Modelled from the spec: \<^verbatim>\<open>cv::cvtColor\<close> with \<^verbatim>\<open>COLOR_GRAY2RGBA\<close> is missing from
  the sources. "Recoloring: expand the single-channel edge map back into a 4-channel
  color image by replicating the scalar value into all three color channels and setting
  alpha to a fixed opaque value". Of the two readings the specification leaves open this
  is the one OpenCV documents for the conversion code: alpha gets the maximum of the
  channel range, 255.
\<close>

definition gray2rgba :: "uchar list \<Rightarrow> uchar list" where
  "gray2rgba d = concat (map (\<lambda>g. [g, g, g, 255]) d)"

definition GRAY2RGBA_contract :: "opencv \<Rightarrow> bool" where
  "GRAY2RGBA_contract cv \<longleftrightarrow>
     (\<forall>m. continuous_Mat m \<and> mtype m = CV_8UC1 \<longrightarrow>
        cvtColor cv m COLOR_GRAY2RGBA = Inr (m\<lparr>mtype := CV_8UC4, data := gray2rgba (data m)\<rparr>))"

text \<open>
  Modelled from the spec: \<^verbatim>\<open>cv::Mat::copyTo\<close> is missing from the sources. "A full deep
  copy of the input view": on a continuous matrix the copy is an equal matrix.
\<close>

definition copyTo_contract :: "opencv \<Rightarrow> bool" where
  "copyTo_contract cv \<longleftrightarrow> (\<forall>m. continuous_Mat m \<longrightarrow> copyTo cv m = Inr m)"

definition recipe_contract :: "opencv \<Rightarrow> bool" where
  "recipe_contract cv \<longleftrightarrow>
     RGBA2GRAY_contract cv \<and> GaussianBlur_contract cv \<and> Canny_contract cv
     \<and> GRAY2RGBA_contract cv"

text \<open>
  Modelled from the spec: what the three missing routines do on an image of one colour.
  "A flat-color image has no gradients": the gray image and the blurred image of a
  constant image are constant, and the edge map of a constant image is zero.
\<close>

definition flat_contract :: "opencv \<Rightarrow> bool" where
  "flat_contract cv \<longleftrightarrow>
     (\<forall>m g px. continuous_Mat m \<and> mtype m = CV_8UC4 \<and> length px = 4
          \<and> data m = concat (replicate (nat (rows m) * nat (cols m)) px)
          \<and> cvtColor cv m COLOR_RGBA2GRAY = Inr g
        \<longrightarrow> (\<exists>y. data g = replicate (length (data g)) y))
     \<and> (\<forall>m b v. continuous_Mat m \<and> mtype m = CV_8UC1
          \<and> data m = replicate (length (data m)) v
          \<and> GaussianBlur cv m (5, 5) (3 / 2) = Inr b
        \<longrightarrow> (\<exists>y. data b = replicate (length (data b)) y))
     \<and> (\<forall>m e v. continuous_Mat m \<and> mtype m = CV_8UC1
          \<and> data m = replicate (length (data m)) v
          \<and> Canny cv m 50 150 = Inr e
        \<longrightarrow> data e = replicate (length (data e)) 0)"

section \<open>A small library that meets the contracts\<close>

text \<open>
  A sample implementation of the interface, simpler than OpenCV (replicated borders, a
  fixed integer kernel, no non-maximum suppression). It shows that the contracts can be
  met and lets the entry points run on concrete frames. Like OpenCV it throws on an
  empty source; it also throws where the buffer does not match the declared size, which
  in C++ is undefined behaviour.
\<close>

definition luma :: "uchar \<Rightarrow> uchar \<Rightarrow> uchar \<Rightarrow> uchar" where
  "luma r g b = word_of_nat ((unat r * 4899 + unat g * 9617 + unat b * 1868 + 8192) div 16384)"

definition npixels :: "Mat \<Rightarrow> nat" where
  "npixels m = nat (rows m) * nat (cols m)"

text \<open>The byte at row \<open>r\<close>, column \<open>c\<close> of a single-channel matrix, the border replicated.\<close>

definition px_at :: "Mat \<Rightarrow> int \<Rightarrow> int \<Rightarrow> int" where
  "px_at m r c =
     uint (data m ! (nat (min (max r 0) (rows m - 1)) * nat (cols m)
                     + nat (min (max c 0) (cols m - 1))))"

definition grid :: "Mat \<Rightarrow> (int \<Rightarrow> int \<Rightarrow> uchar) \<Rightarrow> uchar list" where
  "grid m f =
     map (\<lambda>i. f (int (i div nat (cols m))) (int (i mod nat (cols m)))) [0..<npixels m]"

definition kernel5 :: "(int \<times> int) list" where
  "kernel5 = [(- 2, 31), (- 1, 60), (0, 74), (1, 60), (2, 31)]"

definition blur_px :: "Mat \<Rightarrow> int \<Rightarrow> int \<Rightarrow> uchar" where
  "blur_px m r c =
     word_of_int
       ((sum_list (map (\<lambda>(dy, wy).
            sum_list (map (\<lambda>(dx, wx). wy * wx * px_at m (r + dy) (c + dx)) kernel5))
          kernel5) + 32768) div 65536)"

definition magnitude :: "Mat \<Rightarrow> int \<Rightarrow> int \<Rightarrow> int" where
  "magnitude m r c =
     \<bar>(px_at m (r - 1) (c + 1) + 2 * px_at m r (c + 1) + px_at m (r + 1) (c + 1))
        - (px_at m (r - 1) (c - 1) + 2 * px_at m r (c - 1) + px_at m (r + 1) (c - 1))\<bar>
     + \<bar>(px_at m (r + 1) (c - 1) + 2 * px_at m (r + 1) c + px_at m (r + 1) (c + 1))
        - (px_at m (r - 1) (c - 1) + 2 * px_at m (r - 1) c + px_at m (r - 1) (c + 1))\<bar>"

definition neighbours8 :: "(int \<times> int) list" where
  "neighbours8 = [(- 1, - 1), (- 1, 0), (- 1, 1), (0, - 1), (0, 1), (1, - 1), (1, 0), (1, 1)]"

definition edge_px :: "Mat \<Rightarrow> rat \<Rightarrow> rat \<Rightarrow> int \<Rightarrow> int \<Rightarrow> uchar" where
  "edge_px m lo hi r c =
     (if hi < of_int (magnitude m r c)
         \<or> (lo < of_int (magnitude m r c)
             \<and> list_ex (\<lambda>(dy, dx). hi < of_int (magnitude m (r + dy) (c + dx))) neighbours8)
      then 255 else 0)"

definition empty_source :: cv_Exception where
  "empty_source = cv_Exception (- 215) ''!_src.empty()''"

definition bad_source :: cv_Exception where
  "bad_source = cv_Exception (- 201) ''unsupported source''"

definition sample_cvtColor :: "Mat \<Rightarrow> color_code \<Rightarrow> cv_Exception + Mat" where
  "sample_cvtColor m c =
     (if rows m = 0 \<or> cols m = 0 then Inl empty_source
      else if \<not> continuous_Mat m then Inl bad_source
      else case c of
        COLOR_RGBA2GRAY \<Rightarrow>
          if mtype m = CV_8UC4
          then Inr (m\<lparr>mtype := CV_8UC1,
                      data := map (\<lambda>i. luma (data m ! (4 * i)) (data m ! (4 * i + 1))
                                          (data m ! (4 * i + 2))) [0..<npixels m]\<rparr>)
          else Inl bad_source
      | COLOR_GRAY2RGBA \<Rightarrow>
          if mtype m = CV_8UC1
          then Inr (m\<lparr>mtype := CV_8UC4, data := gray2rgba (data m)\<rparr>)
          else Inl bad_source
      | COLOR_RGBA2BGR \<Rightarrow>
          if mtype m = CV_8UC4
          then Inr (m\<lparr>mtype := CV_8UC3,
                      data := concat (map (\<lambda>i. [data m ! (4 * i + 2), data m ! (4 * i + 1),
                                                  data m ! (4 * i)]) [0..<npixels m])\<rparr>)
          else Inl bad_source
      | COLOR_BGR2GRAY \<Rightarrow>
          if mtype m = CV_8UC3
          then Inr (m\<lparr>mtype := CV_8UC1,
                      data := map (\<lambda>i. luma (data m ! (3 * i + 2)) (data m ! (3 * i + 1))
                                          (data m ! (3 * i))) [0..<npixels m]\<rparr>)
          else Inl bad_source
      | COLOR_GRAY2BGR \<Rightarrow>
          if mtype m = CV_8UC1
          then Inr (m\<lparr>mtype := CV_8UC3, data := concat (map (\<lambda>g. [g, g, g]) (data m))\<rparr>)
          else Inl bad_source
      | COLOR_BGR2RGBA \<Rightarrow>
          if mtype m = CV_8UC3
          then Inr (m\<lparr>mtype := CV_8UC4,
                      data := concat (map (\<lambda>i. [data m ! (3 * i + 2), data m ! (3 * i + 1),
                                                  data m ! (3 * i), 255]) [0..<npixels m])\<rparr>)
          else Inl bad_source)"

definition sample_GaussianBlur :: "Mat \<Rightarrow> nat \<times> nat \<Rightarrow> rat \<Rightarrow> cv_Exception + Mat" where
  "sample_GaussianBlur m ksize sigma =
     (if rows m = 0 \<or> cols m = 0 then Inl empty_source
      else if \<not> continuous_Mat m \<or> mtype m \<noteq> CV_8UC1 \<or> ksize \<noteq> (5, 5) \<or> sigma \<noteq> 3 / 2
      then Inl bad_source
      else Inr (m\<lparr>data := grid m (blur_px m)\<rparr>))"

definition sample_Canny :: "Mat \<Rightarrow> rat \<Rightarrow> rat \<Rightarrow> cv_Exception + Mat" where
  "sample_Canny m lo hi =
     (if rows m = 0 \<or> cols m = 0 then Inl empty_source
      else if \<not> continuous_Mat m \<or> mtype m \<noteq> CV_8UC1 then Inl bad_source
      else Inr (m\<lparr>data := grid m (edge_px m lo hi)\<rparr>))"

definition sample_copyTo :: "Mat \<Rightarrow> cv_Exception + Mat" where
  "sample_copyTo m =
     (if rows m = 0 \<or> cols m = 0 then Inr empty_Mat
      else if \<not> continuous_Mat m then Inl bad_source
      else Inr m)"

definition sample_opencv :: opencv where
  "sample_opencv =
     \<lparr>CV_VERSION = ''4.8.0'', cvtColor = sample_cvtColor, GaussianBlur = sample_GaussianBlur,
      Canny = sample_Canny, copyTo = sample_copyTo\<rparr>"

section \<open>Concrete frames and environments\<close>

text \<open>A call in which the runtime grants everything and the frame takes 7 ms.\<close>

definition granting_env :: jni_env where
  "granting_env =
     \<lparr>elements_available = True, array_allocated = True,
      startTime = 1000000, endTime = 8500000\<rparr>"

text \<open>The same call when the output array cannot be allocated.\<close>

definition exhausted_env :: jni_env where
  "exhausted_env = granting_env\<lparr>array_allocated := False\<rparr>"

definition frame_2x2 :: "jbyte list" where
  "frame_2x2 = [10, 20, 30, 255, 40, 50, 60, 255, 70, 80, 90, 255, 100, 110, 120, 255]"

definition red_4x4 :: "jbyte list" where
  "red_4x4 = concat (replicate 16 [255, 0, 0, 255])"

section \<open>Properties\<close>

subsection \<open>The gateway on a valid frame\<close>

lemma applyStep5_frame:
  "java_heap (snd (applyStep5 cv m w h flag s)) = java_heap s
   \<and> lastProcessingTime (snd (applyStep5 cv m w h flag s)) = lastProcessingTime s"
  by (simp add: applyStep5_def LOGI_def Let_def split: sum.splits)

lemma word_of_frame_length:
  fixes width height :: jint
  assumes "int n = sint width * sint height * 4"
  shows "(word_of_nat n :: jsize) = width * height * 4"
proof -
  have "(word_of_nat n :: jsize) = word_of_int (int n)" by simp
  also have "\<dots> = word_of_int (sint width * sint height * 4)" using assms by simp
  also have "\<dots> = width * height * 4" by (simp add: word_of_int_hom_syms)
  finally show ?thesis .
qed

lemma sint_frame_length:
  fixes width height :: jint
  assumes "int n = sint width * sint height * 4" and "n < 2 ^ 31"
  shows "sint (height * width * 4) = int n"
proof -
  have "height * width * 4 = (word_of_nat n :: jsize)"
    using word_of_frame_length [OF assms(1)] by (simp add: mult.commute)
  moreover have "sint (word_of_nat n :: jsize) = int n"
  proof -
    have "sint (word_of_nat n :: jsize) = (int n + 2 ^ 31) mod 2 ^ 32 - 2 ^ 31"
      using int_word_sint [where 'a = 32, of "int n"] by simp
    also have "\<dots> = int n" using assms(2) by simp
    finally show ?thesis .
  qed
  ultimately show ?thesis by simp
qed

lemma NewByteArray_frame:
  fixes width height :: jint
  assumes "int n = sint width * sint height * 4" and "n < 2 ^ 31" and "array_allocated env"
  shows "NewByteArray env h (height * width * 4) = Some (length h, h @ [replicate n 0])"
  using assms(3) sint_frame_length [OF assms(1,2)] by (simp add: NewByteArray_def)

lemma SetByteArrayRegion_frame:
  fixes width height :: jint
  assumes "int n = sint width * sint height * 4" and "n < 2 ^ 31" and "n \<le> length buf"
  shows "SetByteArrayRegion (h @ [replicate n 0]) (length h) 0 (height * width * 4) buf
         = Some (h @ [take n buf])"
  using assms(3) sint_frame_length [OF assms(1,2)] by (simp add: SetByteArrayRegion_def)

lemma processFrameBytes_completes:
  assumes ref: "imageData < length (java_heap s)"
      and len: "int (length (java_heap s ! imageData)) = sint width * sint height * 4"
      and small: "length (java_heap s ! imageData) < 2 ^ 31"
      and el: "elements_available env" and al: "array_allocated env"
      and step: "applyStep5 cv \<lparr>rows = sint height, cols = sint width, mtype = CV_8UC4,
                   data = java_heap s ! imageData\<rparr> width height flag s = (Inr outputMat, s1)"
      and enough: "length (java_heap s ! imageData) \<le> length (data outputMat)"
  shows "processFrameBytes cv env imageData width height flag s =
           (Returned (Some (length (java_heap s))),
            LOGI ''Frame processed in %ld ms'' [IntArg (duration_ms (startTime env) (endTime env))]
              (s1\<lparr>java_heap := java_heap s @ [take (length (java_heap s ! imageData)) (data outputMat)],
                  lastProcessingTime := duration_ms (startTime env) (endTime env)\<rparr>))"
proof -
  have h1: "java_heap s1 = java_heap s"
    using applyStep5_frame [of cv _ width height flag s] step by (metis snd_conv)
  have l: "GetArrayLength (java_heap s) imageData = width * height * 4"
    using word_of_frame_length [OF len] by (simp add: GetArrayLength_def)
  have e: "GetByteArrayElements env (java_heap s) imageData = Some (java_heap s ! imageData)"
    using el by (simp add: GetByteArrayElements_def)
  note n = NewByteArray_frame [OF len small al, of "java_heap s"]
  note r = SetByteArrayRegion_frame [OF len small enough, of "java_heap s"]
  show ?thesis
    using ref by (simp add: processFrameBytes_def l e channels_def step h1 n r)
qed

subsection \<open>The recipe under the contracts\<close>

lemma length_gray2rgba: "length (gray2rgba d) = 4 * length d"
  by (induction d) (simp_all add: gray2rgba_def)

lemma gray2rgba_Cons: "gray2rgba (g # d) = g # g # g # 255 # gray2rgba d"
  by (simp add: gray2rgba_def)

lemma nth_gray2rgba:
  "i < length d \<Longrightarrow>
     gray2rgba d ! (4 * i) = d ! i \<and> gray2rgba d ! (4 * i + 1) = d ! i
     \<and> gray2rgba d ! (4 * i + 2) = d ! i \<and> gray2rgba d ! (4 * i + 3) = 255"
proof (induction d arbitrary: i)
  case Nil
  then show ?case by simp
next
  case (Cons g d)
  show ?case
  proof (cases i)
    case 0
    then show ?thesis by (simp add: gray2rgba_Cons)
  next
    case (Suc j)
    with Cons.prems have "j < length d" by simp
    from Cons.IH [OF this] Suc show ?thesis
      by (simp add: gray2rgba_Cons numeral_eq_Suc)
  qed
qed

lemma input_Mat_continuous:
  fixes width height :: jint
  assumes "0 < sint width" and "0 < sint height"
      and "int (length bytes) = sint width * sint height * 4"
  shows "continuous_Mat \<lparr>rows = sint height, cols = sint width, mtype = CV_8UC4, data = bytes\<rparr>"
proof -
  have "length bytes = nat (sint width * sint height * 4)" using assms(3) by simp
  also have "\<dots> = nat (sint height) * nat (sint width) * 4"
    using assms(1,2) by (simp add: nat_mult_distrib mult.commute)
  finally show ?thesis using assms(1,2) by (simp add: continuous_Mat_def channels_def)
qed

lemma edge_recipe:
  assumes c: "recipe_contract cv" and m: "continuous_Mat m" "mtype m = CV_8UC4"
  shows "\<exists>e. continuous_Mat e \<and> mtype e = CV_8UC1 \<and> same_size e m \<and> set (data e) \<subseteq> {0, 255}
           \<and> fst (applyStep5 cv m width height True s)
               = Inr (e\<lparr>mtype := CV_8UC4, data := gray2rgba (data e)\<rparr>)"
proof -
  from c m obtain g where g: "cvtColor cv m COLOR_RGBA2GRAY = Inr g"
      "continuous_Mat g" "mtype g = CV_8UC1" "same_size g m"
    unfolding recipe_contract_def RGBA2GRAY_contract_def by blast
  from c g obtain b where b: "GaussianBlur cv g (5, 5) (3 / 2) = Inr b"
      "continuous_Mat b" "mtype b = CV_8UC1" "same_size b g"
    unfolding recipe_contract_def GaussianBlur_contract_def by blast
  from c b obtain e where e: "Canny cv b 50 150 = Inr e"
      "continuous_Mat e" "mtype e = CV_8UC1" "same_size e b" "set (data e) \<subseteq> {0, 255}"
    unfolding recipe_contract_def Canny_contract_def by blast
  from c e have o: "cvtColor cv e COLOR_GRAY2RGBA
                     = Inr (e\<lparr>mtype := CV_8UC4, data := gray2rgba (data e)\<rparr>)"
    unfolding recipe_contract_def GRAY2RGBA_contract_def by blast
  have "same_size e m" using e(4) b(4) g(4) by (simp add: same_size_def)
  moreover have "fst (applyStep5 cv m width height True s)
                   = Inr (e\<lparr>mtype := CV_8UC4, data := gray2rgba (data e)\<rparr>)"
    by (simp add: applyStep5_def g(1) b(1) e(1) o)
  ultimately show ?thesis using e(2,3,5) by blast
qed

lemma edge_call:
  assumes ref: "imageData < length (java_heap s)"
      and pos: "0 < sint width" "0 < sint height"
      and len: "int (length (java_heap s ! imageData)) = sint width * sint height * 4"
      and small: "length (java_heap s ! imageData) < 2 ^ 31"
      and c: "recipe_contract cv"
      and el: "elements_available env" and al: "array_allocated env"
  shows "\<exists>e. length e = nat (sint height) * nat (sint width) \<and> set e \<subseteq> {0, 255}
           \<and> fst (processFrameBytes cv env imageData width height True s)
                = Returned (Some (length (java_heap s)))
           \<and> java_heap (snd (processFrameBytes cv env imageData width height True s))
                = java_heap s @ [gray2rgba e]
           \<and> lastProcessingTime (snd (processFrameBytes cv env imageData width height True s))
                = duration_ms (startTime env) (endTime env)"
proof -
  let ?m = "\<lparr>rows = sint height, cols = sint width, mtype = CV_8UC4,
              data = java_heap s ! imageData\<rparr>"
  have m: "continuous_Mat ?m" by (rule input_Mat_continuous [OF pos len])
  from edge_recipe [OF c m, of width height s]
  obtain e where e: "continuous_Mat e" "mtype e = CV_8UC1" "same_size e ?m"
      "set (data e) \<subseteq> {0, 255}"
      "fst (applyStep5 cv ?m width height True s)
         = Inr (e\<lparr>mtype := CV_8UC4, data := gray2rgba (data e)\<rparr>)"
    by auto
  obtain s1 where step: "applyStep5 cv ?m width height True s
      = (Inr (e\<lparr>mtype := CV_8UC4, data := gray2rgba (data e)\<rparr>), s1)"
    using e(5) by (cases "applyStep5 cv ?m width height True s") simp
  have le: "length (data e) = nat (sint height) * nat (sint width)"
    using e(1,2,3) by (simp add: continuous_Mat_def same_size_def channels_def)
  have "length (java_heap s ! imageData) = nat (sint width * sint height * 4)"
    using len by simp
  also have "\<dots> = 4 * (nat (sint height) * nat (sint width))"
    using pos by (simp add: nat_mult_distrib mult.commute)
  finally have n: "length (java_heap s ! imageData) = length (gray2rgba (data e))"
    by (simp add: length_gray2rgba le)
  have enough: "length (java_heap s ! imageData)
                  \<le> length (data (e\<lparr>mtype := CV_8UC4, data := gray2rgba (data e)\<rparr>))"
    using n by simp
  note r = processFrameBytes_completes [OF ref len small el al step enough]
  have "fst (processFrameBytes cv env imageData width height True s)
          = Returned (Some (length (java_heap s)))"
    by (simp add: r)
  moreover have "java_heap (snd (processFrameBytes cv env imageData width height True s))
          = java_heap s @ [gray2rgba (data e)]"
    by (simp add: r LOGI_def n)
  moreover have "lastProcessingTime (snd (processFrameBytes cv env imageData width height True s))
          = duration_ms (startTime env) (endTime env)"
    by (simp add: r LOGI_def)
  ultimately show ?thesis using le e(4) by blast
qed

lemma returned_array:
  assumes ref: "imageData < length (java_heap s)"
      and len: "int (length (java_heap s ! imageData)) = sint width * sint height * 4"
      and small: "length (java_heap s ! imageData) < 2 ^ 31"
      and ret: "fst (processFrameBytes cv env imageData width height flag s) = Returned (Some out)"
  shows "out = length (java_heap s)
         \<and> length (java_heap (snd (processFrameBytes cv env imageData width height flag s)))
             = Suc (length (java_heap s))
         \<and> length (java_heap (snd (processFrameBytes cv env imageData width height flag s)) ! out)
             = length (java_heap s ! imageData)"
proof -
  let ?m = "\<lparr>rows = sint height, cols = sint width, mtype = CV_8UC4,
              data = java_heap s ! imageData\<rparr>"
  obtain r s1 where step: "applyStep5 cv ?m width height flag s = (r, s1)"
    by (cases "applyStep5 cv ?m width height flag s")
  have h1: "java_heap s1 = java_heap s"
    using applyStep5_frame [of cv ?m width height flag s] step by simp
  note sl = sint_frame_length [OF len small]
  show ?thesis
    using ret ref h1 sl
    by (auto simp add: processFrameBytes_def Let_def step channels_def LOGI_def LOGE_def
          GetByteArrayElements_def NewByteArray_def SetByteArrayRegion_def nth_append
        split: if_splits option.splits sum.splits prod.splits)
qed

subsection \<open>The sample library meets the contracts\<close>

lemma sample_selectors [simp]:
  "cvtColor sample_opencv = sample_cvtColor"
  "GaussianBlur sample_opencv = sample_GaussianBlur"
  "Canny sample_opencv = sample_Canny"
  "copyTo sample_opencv = sample_copyTo"
  by (simp_all add: sample_opencv_def)

lemma continuous_nonempty: "continuous_Mat m \<Longrightarrow> rows m \<noteq> 0 \<and> cols m \<noteq> 0"
  by (simp add: continuous_Mat_def)

lemma length_grid: "length (grid m f) = npixels m"
  by (simp add: grid_def)

lemma sample_RGBA2GRAY: "RGBA2GRAY_contract sample_opencv"
  by (auto simp add: RGBA2GRAY_contract_def sample_cvtColor_def continuous_Mat_def
        channels_def npixels_def same_size_def)

lemma sample_GaussianBlur_ok: "GaussianBlur_contract sample_opencv"
  by (auto simp add: GaussianBlur_contract_def sample_GaussianBlur_def continuous_Mat_def
        channels_def npixels_def same_size_def length_grid)

lemma edge_px_binary: "edge_px m lo hi r c \<in> {0, 255}"
  by (simp add: edge_px_def)

lemma sample_Canny_ok: "Canny_contract sample_opencv"
  by (auto simp add: Canny_contract_def sample_Canny_def continuous_Mat_def
        channels_def npixels_def same_size_def length_grid grid_def edge_px_def)

lemma sample_GRAY2RGBA: "GRAY2RGBA_contract sample_opencv"
  by (auto simp add: GRAY2RGBA_contract_def sample_cvtColor_def continuous_Mat_def)

lemma sample_copyTo_ok: "copyTo_contract sample_opencv"
  by (auto simp add: copyTo_contract_def sample_copyTo_def continuous_Mat_def)

lemma sample_recipe: "recipe_contract sample_opencv"
  by (simp add: recipe_contract_def sample_RGBA2GRAY sample_GaussianBlur_ok sample_Canny_ok
        sample_GRAY2RGBA)

lemma nth_concat_replicate:
  "i < n \<Longrightarrow> k < length px \<Longrightarrow> concat (replicate n px) ! (length px * i + k) = px ! k"
proof (induction n arbitrary: i)
  case 0
  then show ?case by simp
next
  case (Suc n)
  show ?case
  proof (cases i)
    case 0
    with Suc.prems show ?thesis by (simp add: nth_append)
  next
    case (Suc j)
    with Suc.prems have "j < n" by simp
    from Suc.IH [OF this Suc.prems(2)] Suc show ?thesis
      by (simp add: nth_append add.assoc)
  qed
qed

lemma map_const_upt: "(\<And>i. i < n \<Longrightarrow> f i = c) \<Longrightarrow> map f [0..<n] = replicate n c"
  by (induction n) (simp_all add: replicate_append_same)

lemma cell_in_range:
  assumes "0 < rows m" and "0 < cols m"
  shows "nat (min (max r 0) (rows m - 1)) * nat (cols m) + nat (min (max c 0) (cols m - 1))
           < nat (rows m) * nat (cols m)"
proof -
  let ?R = "nat (min (max r 0) (rows m - 1))" and ?C = "nat (min (max c 0) (cols m - 1))"
  have R: "Suc ?R \<le> nat (rows m)" and C: "?C < nat (cols m)" using assms by auto
  have "?R * nat (cols m) + ?C < Suc ?R * nat (cols m)" using C by simp
  also have "\<dots> \<le> nat (rows m) * nat (cols m)" using R by (rule mult_le_mono1)
  finally show ?thesis .
qed

lemma px_at_flat:
  assumes "continuous_Mat m" and "mtype m = CV_8UC1" and "data m = replicate (length (data m)) v"
  shows "px_at m r c = uint v"
proof -
  have n: "length (data m) = nat (rows m) * nat (cols m)" and p: "0 < rows m" "0 < cols m"
    using assms(1,2) by (simp_all add: continuous_Mat_def channels_def)
  from cell_in_range [OF p, of r c] n
  have "nat (min (max r 0) (rows m - 1)) * nat (cols m) + nat (min (max c 0) (cols m - 1))
          < length (data m)" by simp
  then have "data m ! (nat (min (max r 0) (rows m - 1)) * nat (cols m)
                + nat (min (max c 0) (cols m - 1))) = v"
    using assms(3) by (metis nth_replicate)
  then show ?thesis by (simp add: px_at_def)
qed

lemma blur_px_flat:
  assumes "continuous_Mat m" and "mtype m = CV_8UC1" and "data m = replicate (length (data m)) v"
  shows "blur_px m r c = v"
proof -
  have "(65536 * uint v + 32768) div 65536 = uint v" by simp
  then show ?thesis
    by (simp add: blur_px_def kernel5_def px_at_flat [OF assms])
qed

lemma magnitude_flat:
  assumes "continuous_Mat m" and "mtype m = CV_8UC1" and "data m = replicate (length (data m)) v"
  shows "magnitude m r c = 0"
  by (simp add: magnitude_def px_at_flat [OF assms])

lemma edge_px_flat:
  assumes "continuous_Mat m" and "mtype m = CV_8UC1" and "data m = replicate (length (data m)) v"
  shows "edge_px m 50 150 r c = 0"
  by (simp add: edge_px_def magnitude_flat [OF assms])

lemma grid_const: "(\<And>r c. f r c = v) \<Longrightarrow> grid m f = replicate (npixels m) v"
  by (simp add: grid_def map_const_upt)

lemma sample_gray_flat:
  assumes m: "continuous_Mat m" "mtype m = CV_8UC4" and px: "length px = 4"
      and d: "data m = concat (replicate (nat (rows m) * nat (cols m)) px)"
      and g: "sample_cvtColor m COLOR_RGBA2GRAY = Inr g"
  shows "\<exists>y. data g = replicate (length (data g)) y"
proof -
  let ?n = "nat (rows m) * nat (cols m)"
  have at: "data m ! (4 * i + k) = px ! k" if "i < ?n" "k < 4" for i k
    using nth_concat_replicate [of i ?n k px] that px d by simp
  have "map (\<lambda>i. luma (data m ! (4 * i)) (data m ! (4 * i + 1)) (data m ! (4 * i + 2))) [0..<?n]
          = replicate ?n (luma (px ! 0) (px ! 1) (px ! 2))"
    using at [of _ 0] at [of _ 1] at [of _ 2] by (intro map_const_upt) simp
  moreover have "data g = map (\<lambda>i. luma (data m ! (4 * i)) (data m ! (4 * i + 1))
                                   (data m ! (4 * i + 2))) [0..<?n]"
    using g m by (auto simp add: sample_cvtColor_def continuous_nonempty npixels_def
                    split: if_splits)
  ultimately have "data g = replicate ?n (luma (px ! 0) (px ! 1) (px ! 2))" by simp
  then have "data g = replicate (length (data g)) (luma (px ! 0) (px ! 1) (px ! 2))" by simp
  then show ?thesis ..
qed

lemma sample_flat: "flat_contract sample_opencv"
proof -
  have 1: "\<exists>y. data g = replicate (length (data g)) y"
    if "continuous_Mat m \<and> mtype m = CV_8UC4 \<and> length px = 4
        \<and> data m = concat (replicate (nat (rows m) * nat (cols m)) px)
        \<and> cvtColor sample_opencv m COLOR_RGBA2GRAY = Inr g" for m g px
    using that sample_gray_flat [of m px g] by simp
  have 2: "\<exists>y. data b = replicate (length (data b)) y"
    if "continuous_Mat m \<and> mtype m = CV_8UC1 \<and> data m = replicate (length (data m)) v
        \<and> GaussianBlur sample_opencv m (5, 5) (3 / 2) = Inr b" for m b v
  proof -
    from that have "b = m\<lparr>data := grid m (blur_px m)\<rparr>"
      by (auto simp add: sample_GaussianBlur_def split: if_splits)
    moreover have "blur_px m r c = v" for r c
      using that blur_px_flat [of m v r c] by simp
    then have "grid m (blur_px m) = replicate (npixels m) v" by (rule grid_const)
    ultimately have "data b = replicate (length (data b)) v" by simp
    then show ?thesis ..
  qed
  have 3: "data e = replicate (length (data e)) 0"
    if "continuous_Mat m \<and> mtype m = CV_8UC1 \<and> data m = replicate (length (data m)) v
        \<and> Canny sample_opencv m 50 150 = Inr e" for m e v
  proof -
    from that have "e = m\<lparr>data := grid m (edge_px m 50 150)\<rparr>"
      by (auto simp add: sample_Canny_def split: if_splits)
    moreover have "edge_px m 50 150 r c = 0" for r c
      using that edge_px_flat [of m v r c] by simp
    then have "grid m (edge_px m 50 150) = replicate (npixels m) 0" by (rule grid_const)
    ultimately show ?thesis by simp
  qed
  show ?thesis unfolding flat_contract_def using 1 2 3 by blast
qed

subsection \<open>Constant frames\<close>

lemma gray2rgba_replicate: "gray2rgba (replicate n g) = concat (replicate n [g, g, g, 255])"
  by (simp add: gray2rgba_def)

lemma length_concat_replicate: "length (concat (replicate n xs)) = n * length xs"
  by (induction n) simp_all

lemma length_red_4x4: "length red_4x4 = 64"
  by (simp add: red_4x4_def length_concat_replicate)

lemma flat_recipe:
  assumes c: "recipe_contract cv" and f: "flat_contract cv"
      and m: "continuous_Mat m" "mtype m = CV_8UC4"
      and px: "length px = 4" "data m = concat (replicate (nat (rows m) * nat (cols m)) px)"
  shows "fst (applyStep5 cv m width height True s)
           = Inr (m\<lparr>data := concat (replicate (nat (rows m) * nat (cols m)) [0, 0, 0, 255])\<rparr>)"
proof -
  from c m obtain g where g: "cvtColor cv m COLOR_RGBA2GRAY = Inr g"
      "continuous_Mat g" "mtype g = CV_8UC1" "same_size g m"
    unfolding recipe_contract_def RGBA2GRAY_contract_def by blast
  from c g obtain b where b: "GaussianBlur cv g (5, 5) (3 / 2) = Inr b"
      "continuous_Mat b" "mtype b = CV_8UC1" "same_size b g"
    unfolding recipe_contract_def GaussianBlur_contract_def by blast
  from c b obtain e where e: "Canny cv b 50 150 = Inr e"
      "continuous_Mat e" "mtype e = CV_8UC1" "same_size e b"
    unfolding recipe_contract_def Canny_contract_def by blast
  from c e have o: "cvtColor cv e COLOR_GRAY2RGBA
                     = Inr (e\<lparr>mtype := CV_8UC4, data := gray2rgba (data e)\<rparr>)"
    unfolding recipe_contract_def GRAY2RGBA_contract_def by blast
  from f m px g(1) obtain y where y: "data g = replicate (length (data g)) y"
    unfolding flat_contract_def by blast
  from f g(2,3) y b(1) obtain z where z: "data b = replicate (length (data b)) z"
    unfolding flat_contract_def by blast
  from f b(2,3) z e(1) have "data e = replicate (length (data e)) 0"
    unfolding flat_contract_def by blast
  moreover have "length (data e) = nat (rows m) * nat (cols m)"
    using e(2,3,4) b(4) g(4) by (simp add: continuous_Mat_def same_size_def channels_def)
  ultimately have d: "data e = replicate (nat (rows m) * nat (cols m)) 0" by simp
  have "rows e = rows m" "cols e = cols m"
    using e(4) b(4) g(4) by (simp_all add: same_size_def)
  then have "e\<lparr>mtype := CV_8UC4, data := gray2rgba (data e)\<rparr>
               = m\<lparr>data := concat (replicate (nat (rows m) * nat (cols m)) [0, 0, 0, 255])\<rparr>"
    using m(2) by (simp add: d gray2rgba_replicate)
  then show ?thesis by (simp add: applyStep5_def g(1) b(1) e(1) o)
qed

subsection \<open>Passthrough and edge detection\<close>

text \<open>
  Claim C3. With positive width and height and a buffer of exactly
  \<open>width * height * 4\<close> bytes, a call with \<open>applyEdgeDetection = false\<close> returns a new
  array, different from the input array, whose bytes are the input's bytes in the same
  order (hence of the same length); the input array still holds its bytes. The call is
  one in which the runtime hands out the elements and allocates the output array, and
  \<^verbatim>\<open>copyTo\<close> copies.
\<close>

theorem passthrough_returns_exact_copy:
  assumes ref: "imageData < length (java_heap s)"
      and pos: "0 < sint width" "0 < sint height"
      and len: "int (length (java_heap s ! imageData)) = sint width * sint height * 4"
      and small: "length (java_heap s ! imageData) < 2 ^ 31"
      and cp: "copyTo_contract cv"
      and el: "elements_available env" and al: "array_allocated env"
  shows "\<exists>out. fst (processFrameBytes cv env imageData width height False s) = Returned (Some out)
           \<and> out \<noteq> imageData
           \<and> java_heap (snd (processFrameBytes cv env imageData width height False s)) ! out
               = java_heap s ! imageData
           \<and> java_heap (snd (processFrameBytes cv env imageData width height False s)) ! imageData
               = java_heap s ! imageData"
proof -
  let ?m = "\<lparr>rows = sint height, cols = sint width, mtype = CV_8UC4,
              data = java_heap s ! imageData\<rparr>"
  have m: "continuous_Mat ?m" by (rule input_Mat_continuous [OF pos len])
  then have "copyTo cv ?m = Inr ?m" using cp by (simp add: copyTo_contract_def)
  then have step: "applyStep5 cv ?m width height False s
      = (Inr ?m, LOGI ''Passthrough mode: %dx%d image''
                   [IntArg (sint width), IntArg (sint height)] s)"
    by (simp add: applyStep5_def)
  have enough: "length (java_heap s ! imageData) \<le> length (data ?m)" by simp
  note r = processFrameBytes_completes [OF ref len small el al step enough]
  have "fst (processFrameBytes cv env imageData width height False s)
          = Returned (Some (length (java_heap s)))"
    by (simp add: r)
  moreover have "java_heap (snd (processFrameBytes cv env imageData width height False s))
          = java_heap s @ [java_heap s ! imageData]"
    by (simp add: r LOGI_def)
  ultimately show ?thesis using ref by (simp add: nth_append)
qed

theorem passthrough_returns_exact_copy_witness:
  "copyTo_contract sample_opencv
   \<and> fst (processFrameBytes sample_opencv granting_env 0 2 2 False (initial_state [frame_2x2]))
       = Returned (Some 1)
   \<and> java_heap (snd (processFrameBytes sample_opencv granting_env 0 2 2 False
        (initial_state [frame_2x2]))) ! 1
       = [10, 20, 30, 255, 40, 50, 60, 255, 70, 80, 90, 255, 100, 110, 120, 255]"
proof -
  let ?s = "initial_state [frame_2x2]"
  let ?r = "processFrameBytes sample_opencv granting_env 0 2 2 False ?s"
  have "\<exists>out. fst ?r = Returned (Some out) \<and> out \<noteq> 0
          \<and> java_heap (snd ?r) ! out = java_heap ?s ! 0
          \<and> java_heap (snd ?r) ! 0 = java_heap ?s ! 0"
    by (rule passthrough_returns_exact_copy)
       (simp_all add: sample_copyTo_ok initial_state_def frame_2x2_def granting_env_def)
  then obtain out where o: "fst ?r = Returned (Some out)" "out \<noteq> 0"
      "java_heap (snd ?r) ! out = java_heap ?s ! 0" by blast
  have "out = length (java_heap ?s)"
    using returned_array [of 0 ?s 2 2 sample_opencv granting_env False out] o(1)
    by (simp add: initial_state_def frame_2x2_def)
  then have "out = 1" by (simp add: initial_state_def)
  with o show ?thesis by (simp add: sample_copyTo_ok initial_state_def frame_2x2_def)
qed

text \<open>
  Claim C4. With positive width and height and a buffer of exactly
  \<open>width * height * 4\<close> bytes, whatever its content, every array that a call with
  \<open>applyEdgeDetection = true\<close> returns has \<open>width * height * 4\<close> bytes, for any library;
  and when the library meets the recipe's contracts and the runtime grants the elements
  and the output array, the call does return an array.
\<close>

theorem edge_output_length:
  assumes ref: "imageData < length (java_heap s)"
      and pos: "0 < sint width" "0 < sint height"
      and len: "int (length (java_heap s ! imageData)) = sint width * sint height * 4"
      and small: "length (java_heap s ! imageData) < 2 ^ 31"
  shows "(\<forall>out. fst (processFrameBytes cv env imageData width height True s) = Returned (Some out)
            \<longrightarrow> int (length (java_heap (snd (processFrameBytes cv env imageData width height True s))
                         ! out)) = sint width * sint height * 4)
         \<and> (recipe_contract cv \<and> elements_available env \<and> array_allocated env
            \<longrightarrow> (\<exists>out. fst (processFrameBytes cv env imageData width height True s)
                         = Returned (Some out)))"
proof (intro conjI allI impI)
  fix out
  assume "fst (processFrameBytes cv env imageData width height True s) = Returned (Some out)"
  from returned_array [OF ref len small this]
  have "length (java_heap (snd (processFrameBytes cv env imageData width height True s)) ! out)
          = length (java_heap s ! imageData)"
    by blast
  then show "int (length (java_heap (snd (processFrameBytes cv env imageData width height True s))
               ! out)) = sint width * sint height * 4"
    using len by (simp only:)
next
  assume "recipe_contract cv \<and> elements_available env \<and> array_allocated env"
  with edge_call [OF ref pos len small, of cv env]
  show "\<exists>out. fst (processFrameBytes cv env imageData width height True s) = Returned (Some out)"
    by blast
qed

theorem edge_output_length_witness:
  "recipe_contract sample_opencv
   \<and> (\<exists>out. fst (processFrameBytes sample_opencv granting_env 0 2 2 True
                   (initial_state [replicate 16 0])) = Returned (Some out)
          \<and> length (java_heap (snd (processFrameBytes sample_opencv granting_env 0 2 2 True
                   (initial_state [replicate 16 0]))) ! out) = 16)
   \<and> (\<exists>out. fst (processFrameBytes sample_opencv granting_env 0 2 2 True
                   (initial_state [replicate 16 255])) = Returned (Some out)
          \<and> length (java_heap (snd (processFrameBytes sample_opencv granting_env 0 2 2 True
                   (initial_state [replicate 16 255]))) ! out) = 16)"
proof -
  have "\<exists>out. fst (processFrameBytes sample_opencv granting_env 0 2 2 True
                   (initial_state [replicate 16 v])) = Returned (Some out)
          \<and> length (java_heap (snd (processFrameBytes sample_opencv granting_env 0 2 2 True
                   (initial_state [replicate 16 v]))) ! out) = 16" for v
    using edge_output_length [of 0 "initial_state [replicate 16 v]" 2 2 sample_opencv granting_env]
      sample_recipe
    by (simp add: initial_state_def granting_env_def) fastforce
  then show ?thesis using sample_recipe by blast
qed

text \<open>
  Claim C5. For a valid frame processed with \<open>applyEdgeDetection = true\<close>, by a library
  that meets the recipe's contracts and in a call in which the runtime grants the
  elements and the output array, the call returns an array in which every pixel \<open>p\<close>
  has Red 0 or 255 and Green and Blue equal to Red.
\<close>

theorem edge_output_binary_gray:
  assumes ref: "imageData < length (java_heap s)"
      and pos: "0 < sint width" "0 < sint height"
      and len: "int (length (java_heap s ! imageData)) = sint width * sint height * 4"
      and small: "length (java_heap s ! imageData) < 2 ^ 31"
      and c: "recipe_contract cv"
      and el: "elements_available env" and al: "array_allocated env"
  shows "\<exists>out. fst (processFrameBytes cv env imageData width height True s) = Returned (Some out)
           \<and> (\<forall>p. int p < sint width * sint height \<longrightarrow>
                 (java_heap (snd (processFrameBytes cv env imageData width height True s)) ! out
                    ! (4 * p) = 0
                  \<or> java_heap (snd (processFrameBytes cv env imageData width height True s)) ! out
                    ! (4 * p) = 255)
                 \<and> java_heap (snd (processFrameBytes cv env imageData width height True s)) ! out
                    ! (4 * p + 1)
                   = java_heap (snd (processFrameBytes cv env imageData width height True s)) ! out
                    ! (4 * p)
                 \<and> java_heap (snd (processFrameBytes cv env imageData width height True s)) ! out
                    ! (4 * p + 2)
                   = java_heap (snd (processFrameBytes cv env imageData width height True s)) ! out
                    ! (4 * p))"
proof -
  let ?r = "processFrameBytes cv env imageData width height True s"
  from edge_call [OF ref pos len small c el al]
  obtain e where e: "length e = nat (sint height) * nat (sint width)" "set e \<subseteq> {0, 255}"
      "fst ?r = Returned (Some (length (java_heap s)))"
      "java_heap (snd ?r) = java_heap s @ [gray2rgba e]"
    by blast
  have out: "java_heap (snd ?r) ! length (java_heap s) = gray2rgba e" by (simp add: e(4))
  have "(gray2rgba e ! (4 * p) = 0 \<or> gray2rgba e ! (4 * p) = 255)
        \<and> gray2rgba e ! (4 * p + 1) = gray2rgba e ! (4 * p)
        \<and> gray2rgba e ! (4 * p + 2) = gray2rgba e ! (4 * p)"
    if "int p < sint width * sint height" for p
  proof -
    have "int (length e) = sint width * sint height"
      using e(1) pos by (simp add: mult.commute)
    with that have p: "p < length e" by simp
    then have "e ! p \<in> {0, 255}" using e(2) nth_mem by blast
    with nth_gray2rgba [OF p] show ?thesis by auto
  qed
  with e(3) out show ?thesis by auto
qed

theorem edge_output_binary_gray_witness:
  "recipe_contract sample_opencv
   \<and> (\<exists>out. fst (processFrameBytes sample_opencv granting_env 0 2 2 True
                   (initial_state [frame_2x2])) = Returned (Some out)
          \<and> (java_heap (snd (processFrameBytes sample_opencv granting_env 0 2 2 True
                   (initial_state [frame_2x2]))) ! out ! 12 = 0
              \<or> java_heap (snd (processFrameBytes sample_opencv granting_env 0 2 2 True
                   (initial_state [frame_2x2]))) ! out ! 12 = 255)
          \<and> java_heap (snd (processFrameBytes sample_opencv granting_env 0 2 2 True
                   (initial_state [frame_2x2]))) ! out ! 13
            = java_heap (snd (processFrameBytes sample_opencv granting_env 0 2 2 True
                   (initial_state [frame_2x2]))) ! out ! 12
          \<and> java_heap (snd (processFrameBytes sample_opencv granting_env 0 2 2 True
                   (initial_state [frame_2x2]))) ! out ! 14
            = java_heap (snd (processFrameBytes sample_opencv granting_env 0 2 2 True
                   (initial_state [frame_2x2]))) ! out ! 12)"
proof -
  let ?r = "processFrameBytes sample_opencv granting_env 0 2 2 True (initial_state [frame_2x2])"
  have "\<exists>out. fst ?r = Returned (Some out)
           \<and> (\<forall>p. int p < sint (2 :: jint) * sint (2 :: jint) \<longrightarrow>
                 (java_heap (snd ?r) ! out ! (4 * p) = 0 \<or> java_heap (snd ?r) ! out ! (4 * p) = 255)
                 \<and> java_heap (snd ?r) ! out ! (4 * p + 1) = java_heap (snd ?r) ! out ! (4 * p)
                 \<and> java_heap (snd ?r) ! out ! (4 * p + 2) = java_heap (snd ?r) ! out ! (4 * p))"
    by (rule edge_output_binary_gray)
       (simp_all add: sample_recipe initial_state_def frame_2x2_def granting_env_def)
  then obtain out where o: "fst ?r = Returned (Some out)"
      "\<forall>p. int p < sint (2 :: jint) * sint (2 :: jint) \<longrightarrow>
                 (java_heap (snd ?r) ! out ! (4 * p) = 0 \<or> java_heap (snd ?r) ! out ! (4 * p) = 255)
                 \<and> java_heap (snd ?r) ! out ! (4 * p + 1) = java_heap (snd ?r) ! out ! (4 * p)
                 \<and> java_heap (snd ?r) ! out ! (4 * p + 2) = java_heap (snd ?r) ! out ! (4 * p)"
    by blast
  from o(2) [rule_format, of 3] o(1) sample_recipe show ?thesis by simp
qed

text \<open>
  Claim C10. For a valid frame processed with \<open>applyEdgeDetection = true\<close>, by a
  library that meets the recipe's contracts and in a call in which the runtime grants
  the elements and the output array, byte 3 (alpha) of every pixel of the returned array
  is 255, whatever the colour bytes are.
\<close>

theorem edge_output_alpha_opaque:
  assumes ref: "imageData < length (java_heap s)"
      and pos: "0 < sint width" "0 < sint height"
      and len: "int (length (java_heap s ! imageData)) = sint width * sint height * 4"
      and small: "length (java_heap s ! imageData) < 2 ^ 31"
      and c: "recipe_contract cv"
      and el: "elements_available env" and al: "array_allocated env"
  shows "\<exists>out. fst (processFrameBytes cv env imageData width height True s) = Returned (Some out)
           \<and> (\<forall>p. int p < sint width * sint height \<longrightarrow>
                 java_heap (snd (processFrameBytes cv env imageData width height True s)) ! out
                    ! (4 * p + 3) = 255)"
proof -
  let ?r = "processFrameBytes cv env imageData width height True s"
  from edge_call [OF ref pos len small c el al]
  obtain e where e: "length e = nat (sint height) * nat (sint width)"
      "fst ?r = Returned (Some (length (java_heap s)))"
      "java_heap (snd ?r) = java_heap s @ [gray2rgba e]"
    by blast
  have out: "java_heap (snd ?r) ! length (java_heap s) = gray2rgba e" by (simp add: e(3))
  have "gray2rgba e ! (4 * p + 3) = 255" if "int p < sint width * sint height" for p
  proof -
    have "int (length e) = sint width * sint height"
      using e(1) pos by (simp add: mult.commute)
    with that have "p < length e" by simp
    from nth_gray2rgba [OF this] show ?thesis by simp
  qed
  with e(2) out show ?thesis by auto
qed

theorem edge_output_alpha_opaque_witness:
  "recipe_contract sample_opencv
   \<and> (\<exists>out. fst (processFrameBytes sample_opencv granting_env 0 2 2 True
                   (initial_state [frame_2x2])) = Returned (Some out)
          \<and> java_heap (snd (processFrameBytes sample_opencv granting_env 0 2 2 True
                   (initial_state [frame_2x2]))) ! out ! 3 = 255
          \<and> java_heap (snd (processFrameBytes sample_opencv granting_env 0 2 2 True
                   (initial_state [frame_2x2]))) ! out ! 15 = 255)"
proof -
  let ?r = "processFrameBytes sample_opencv granting_env 0 2 2 True (initial_state [frame_2x2])"
  have "\<exists>out. fst ?r = Returned (Some out)
           \<and> (\<forall>p. int p < sint (2 :: jint) * sint (2 :: jint) \<longrightarrow>
                 java_heap (snd ?r) ! out ! (4 * p + 3) = 255)"
    by (rule edge_output_alpha_opaque)
       (simp_all add: sample_recipe initial_state_def frame_2x2_def granting_env_def)
  then obtain out where o: "fst ?r = Returned (Some out)"
      "\<forall>p. int p < sint (2 :: jint) * sint (2 :: jint) \<longrightarrow>
             java_heap (snd ?r) ! out ! (4 * p + 3) = 255"
    by blast
  from o(2) [rule_format, of 0] o(2) [rule_format, of 3] o(1) sample_recipe
  show ?thesis by simp
qed

text \<open>
  Claim C6. The 4 by 4 frame whose pixels are all (255, 0, 0, 255), processed with
  \<open>applyEdgeDetection = true\<close> by a library that meets the contracts, gives a 64-byte
  array whose 16 pixels are all (0, 0, 0, 255): no edge, alpha opaque.
\<close>

theorem red_frame_has_no_edges:
  assumes ref: "imageData < length (java_heap s)"
      and red: "java_heap s ! imageData = red_4x4"
      and c: "recipe_contract cv" and f: "flat_contract cv"
      and el: "elements_available env" and al: "array_allocated env"
  shows "\<exists>out. fst (processFrameBytes cv env imageData 4 4 True s) = Returned (Some out)
           \<and> java_heap (snd (processFrameBytes cv env imageData 4 4 True s)) ! out
               = concat (replicate 16 [0, 0, 0, 255])
           \<and> length (java_heap (snd (processFrameBytes cv env imageData 4 4 True s)) ! out) = 64"
proof -
  let ?m = "\<lparr>rows = sint (4 :: jint), cols = sint (4 :: jint), mtype = CV_8UC4,
              data = java_heap s ! imageData\<rparr>"
  let ?o = "?m\<lparr>data := concat (replicate 16 [0, 0, 0, 255])\<rparr>"
  have len: "int (length (java_heap s ! imageData)) = sint (4 :: jint) * sint (4 :: jint) * 4"
    by (simp add: red length_red_4x4)
  have small: "length (java_heap s ! imageData) < 2 ^ 31" by (simp add: red length_red_4x4)
  have m: "continuous_Mat ?m" by (rule input_Mat_continuous [OF _ _ len]) simp_all
  have "fst (applyStep5 cv ?m 4 4 True s)
          = Inr (?m\<lparr>data := concat (replicate (nat (rows ?m) * nat (cols ?m)) [0, 0, 0, 255])\<rparr>)"
    by (rule flat_recipe [OF c f m, where px = "[255, 0, 0, 255]"])
       (simp_all add: red red_4x4_def)
  then have "fst (applyStep5 cv ?m 4 4 True s) = Inr ?o" by simp
  then obtain s1 where step: "applyStep5 cv ?m 4 4 True s = (Inr ?o, s1)"
    by (cases "applyStep5 cv ?m 4 4 True s") simp
  have enough: "length (java_heap s ! imageData) \<le> length (data ?o)"
    by (simp add: red length_red_4x4 length_concat_replicate)
  note r = processFrameBytes_completes [OF ref len small el al step enough]
  have "fst (processFrameBytes cv env imageData 4 4 True s)
          = Returned (Some (length (java_heap s)))"
    by (simp add: r)
  moreover have "java_heap (snd (processFrameBytes cv env imageData 4 4 True s))
          = java_heap s @ [concat (replicate 16 [0, 0, 0, 255])]"
    by (simp add: r LOGI_def red length_red_4x4 length_concat_replicate)
  ultimately show ?thesis by (simp add: length_concat_replicate)
qed

theorem red_frame_has_no_edges_witness:
  "recipe_contract sample_opencv \<and> flat_contract sample_opencv
   \<and> (\<exists>out. fst (processFrameBytes sample_opencv granting_env 0 4 4 True (initial_state [red_4x4]))
              = Returned (Some out)
          \<and> java_heap (snd (processFrameBytes sample_opencv granting_env 0 4 4 True
                (initial_state [red_4x4]))) ! out
              = concat (replicate 16 [0, 0, 0, 255]))"
  using red_frame_has_no_edges [of 0 "initial_state [red_4x4]" sample_opencv granting_env]
    sample_recipe sample_flat
  by (simp add: initial_state_def granting_env_def) blast

subsection \<open>What a call leaves unchanged, and failing calls\<close>

lemma processFrameBytes_heap:
  "java_heap (snd (processFrameBytes cv env imageData width height flag s)) = java_heap s
   \<or> (\<exists>arr. java_heap (snd (processFrameBytes cv env imageData width height flag s))
              = java_heap s @ [arr])"
proof -
  let ?m = "\<lparr>rows = sint height, cols = sint width, mtype = CV_8UC4,
              data = java_heap s ! imageData\<rparr>"
  obtain r s1 where step: "applyStep5 cv ?m width height flag s = (r, s1)"
    by (cases "applyStep5 cv ?m width height flag s")
  have h1: "java_heap s1 = java_heap s"
    using applyStep5_frame [of cv ?m width height flag s] step by simp
  show ?thesis
    using h1
    by (auto simp add: processFrameBytes_def Let_def step channels_def LOGI_def LOGE_def
          GetByteArrayElements_def NewByteArray_def SetByteArrayRegion_def
        split: if_splits option.splits sum.splits prod.splits)
qed


lemma length_check_mod:
  fixes width height :: jint
  shows "(word_of_nat n :: jsize) = width * height * 4
         \<longleftrightarrow> int n mod 2 ^ 32 = (sint width * sint height * 4) mod 2 ^ 32"
proof -
  have "(word_of_nat n :: jsize) = word_of_int (int n)" by simp
  moreover have "width * height * 4 = (word_of_int (sint width * sint height * 4) :: jsize)"
    by (simp add: word_of_int_hom_syms)
  ultimately show ?thesis
    by (simp only: word_of_int_eq_iff take_bit_eq_mod) simp
qed


text \<open>
  Claim C7. Whatever a call of \<^verbatim>\<open>processFrameBytes\<close> does (return an array, return
  null, throw, fault), in either mode and for any library, the input array holds the
  same bytes after the call as before; every array that existed before the call is
  unchanged.
\<close>

theorem input_array_never_written:
  "take (length (java_heap s))
     (java_heap (snd (processFrameBytes cv env imageData width height flag s))) = java_heap s
   \<and> java_heap (snd (processFrameBytes cv env imageData width height flag s)) ! imageData
       = java_heap s ! imageData"
proof (cases "imageData < length (java_heap s)")
  case True
  with processFrameBytes_heap [of cv env imageData width height flag s]
  show ?thesis by (auto simp add: nth_append)
next
  case False
  then have "processFrameBytes cv env imageData width height flag s = (Fault, s)"
    by (simp add: processFrameBytes_def)
  then show ?thesis by simp
qed

theorem input_array_never_written_witness:
  "java_heap (snd (processFrameBytes sample_opencv granting_env 0 2 2 True
      (initial_state [frame_2x2]))) ! 0 = frame_2x2
   \<and> java_heap (snd (processFrameBytes sample_opencv granting_env 0 2 2 False
      (initial_state [frame_2x2]))) ! 0 = frame_2x2
   \<and> java_heap (snd (processFrameBytes sample_opencv exhausted_env 0 2 2 False
      (initial_state [frame_2x2]))) ! 0 = frame_2x2
   \<and> java_heap (snd (processFrameBytes sample_opencv granting_env 0 3 3 True
      (initial_state [frame_2x2]))) ! 0 = frame_2x2"
  using input_array_never_written [of "initial_state [frame_2x2]" sample_opencv granting_env 0 2 2 True]
    input_array_never_written [of "initial_state [frame_2x2]" sample_opencv granting_env 0 2 2 False]
    input_array_never_written [of "initial_state [frame_2x2]" sample_opencv exhausted_env 0 2 2 False]
    input_array_never_written [of "initial_state [frame_2x2]" sample_opencv granting_env 0 3 3 True]
  by (simp add: initial_state_def)




subsection \<open>Exceptions of the recipe\<close>

lemma processFrameWithCanny_fallback:
  assumes "processFrameWithCanny_try cv inputMat = Inl e"
  shows "processFrameWithCanny cv inputMat s
           = (copyTo cv inputMat, LOGI_cv ''OpenCV exception: %s'' [StrArg (what e)] s)"
  using assms by (simp add: processFrameWithCanny_def)

lemma processFrameWithCanny_try_first:
  "cvtColor cv inputMat COLOR_RGBA2BGR = Inl e \<Longrightarrow> processFrameWithCanny_try cv inputMat = Inl e"
  by (simp add: processFrameWithCanny_try_def)

text \<open>
  Claim C1, at the code. When a step of the recipe throws, the exception leaves
  \<^verbatim>\<open>processFrameBytes\<close>: the call returns no array, and no copy of the input is made.
  \<^verbatim>\<open>processFrameWithCanny\<close>, on the same matrix, falls back to \<^verbatim>\<open>copyTo\<close>.
\<close>

theorem recipe_exception_escapes:
  assumes ref: "imageData < length (java_heap s)"
      and len: "GetArrayLength (java_heap s) imageData = width * height * 4"
      and el: "elements_available env"
      and m: "inputMat = \<lparr>rows = sint height, cols = sint width, mtype = CV_8UC4,
                           data = java_heap s ! imageData\<rparr>"
      and throws:
        "cvtColor cv inputMat COLOR_RGBA2GRAY = Inl e
         \<or> (\<exists>grayMat. cvtColor cv inputMat COLOR_RGBA2GRAY = Inr grayMat
              \<and> (GaussianBlur cv grayMat (5, 5) (3 / 2) = Inl e
                 \<or> (\<exists>blurredMat. GaussianBlur cv grayMat (5, 5) (3 / 2) = Inr blurredMat
                      \<and> (Canny cv blurredMat 50 150 = Inl e
                         \<or> (\<exists>edgesMat. Canny cv blurredMat 50 150 = Inr edgesMat
                              \<and> cvtColor cv edgesMat COLOR_GRAY2RGBA = Inl e)))))"
  shows "fst (processFrameBytes cv env imageData width height True s) = Uncaught e
         \<and> java_heap (snd (processFrameBytes cv env imageData width height True s)) = java_heap s
         \<and> (\<forall>e'. processFrameWithCanny_try cv inputMat = Inl e'
               \<longrightarrow> fst (processFrameWithCanny cv inputMat s) = copyTo cv inputMat)"
proof -
  have "fst (applyStep5 cv inputMat width height True s) = Inl e"
    using throws by (auto simp add: applyStep5_def)
  then obtain s1 where step: "applyStep5 cv inputMat width height True s = (Inl e, s1)"
    by (cases "applyStep5 cv inputMat width height True s") simp
  have h1: "java_heap s1 = java_heap s"
    using applyStep5_frame [of cv inputMat width height True s] step by simp
  have "processFrameBytes cv env imageData width height True s = (Uncaught e, s1)"
    using ref len el step m
    by (simp add: processFrameBytes_def GetByteArrayElements_def channels_def)
  then show ?thesis using h1 by (simp add: processFrameWithCanny_def)
qed

theorem recipe_exception_escapes_witness:
  "fst (processFrameBytes sample_opencv granting_env 0 0 0 True (initial_state [[]]))
     = Uncaught (cv_Exception (- 215) ''!_src.empty()'')
   \<and> java_heap (snd (processFrameBytes sample_opencv granting_env 0 0 0 True (initial_state [[]])))
     = [[]]
   \<and> fst (processFrameWithCanny sample_opencv
            \<lparr>rows = 0, cols = 0, mtype = CV_8UC4, data = []\<rparr> (initial_state [[]]))
     = Inr empty_Mat"
proof -
  let ?m = "\<lparr>rows = 0, cols = 0, mtype = CV_8UC4, data = []\<rparr> :: Mat"
  have t: "processFrameWithCanny_try sample_opencv ?m = Inl empty_source"
    by (simp add: processFrameWithCanny_try_def sample_cvtColor_def)
  from recipe_exception_escapes [of 0 "initial_state [[]]" 0 0 granting_env ?m sample_opencv
      empty_source] t
  show ?thesis
    by (simp add: GetArrayLength_def initial_state_def granting_env_def sample_cvtColor_def
          empty_source_def sample_copyTo_def)
qed

subsection \<open>The processing time\<close>

lemma duration_ms_nonneg: "t0 \<le> t1 \<Longrightarrow> 0 \<le> duration_ms t0 t1"
  by (simp add: duration_ms_def sgn_if)

lemma processFrameBytes_time:
  "lastProcessingTime (snd (processFrameBytes cv env imageData width height flag s))
     = (case fst (processFrameBytes cv env imageData width height flag s) of
          Returned (Some out) \<Rightarrow> duration_ms (startTime env) (endTime env)
        | _ \<Rightarrow> lastProcessingTime s)"
proof -
  let ?m = "\<lparr>rows = sint height, cols = sint width, mtype = CV_8UC4,
              data = java_heap s ! imageData\<rparr>"
  obtain r s1 where step: "applyStep5 cv ?m width height flag s = (r, s1)"
    by (cases "applyStep5 cv ?m width height flag s")
  have h1: "lastProcessingTime s1 = lastProcessingTime s"
    using applyStep5_frame [of cv ?m width height flag s] step by simp
  show ?thesis
    using h1
    by (auto simp add: processFrameBytes_def Let_def step channels_def LOGI_def LOGE_def
          GetByteArrayElements_def
        split: if_splits option.splits sum.splits prod.splits)
qed

lemma invoke_time:
  "lastProcessingTime (snd (invoke cv c s)) \<noteq> lastProcessingTime s \<Longrightarrow>
     \<exists>env imageData width height flag out.
        c = ProcessFrameBytes env imageData width height flag
        \<and> fst (invoke cv c s) = Frame_result (Returned (Some out))
        \<and> lastProcessingTime (snd (invoke cv c s)) = duration_ms (startTime env) (endTime env)"
proof (cases c)
  case (ProcessFrameBytes env imageData width height flag)
  assume "lastProcessingTime (snd (invoke cv c s)) \<noteq> lastProcessingTime s"
  with ProcessFrameBytes processFrameBytes_time [of cv env imageData width height flag s]
  show ?thesis by (auto split: outcome.splits option.splits)
qed (simp_all add: getOpenCVVersion_def Let_def isOpenCVAvailable_def getProcessingTime_def
       processFrame_def LOGI_def)

lemma invoke_nonneg:
  assumes "steady_clock (Native c)" and "0 \<le> lastProcessingTime s"
  shows "0 \<le> lastProcessingTime (snd (invoke cv c s))"
proof (cases "lastProcessingTime (snd (invoke cv c s)) = lastProcessingTime s")
  case True
  with assms(2) show ?thesis by simp
next
  case False
  from invoke_time [OF this] obtain env imageData width height flag where
    "c = ProcessFrameBytes env imageData width height flag"
    "lastProcessingTime (snd (invoke cv c s)) = duration_ms (startTime env) (endTime env)"
    by blast
  with assms(1) show ?thesis by (simp add: duration_ms_nonneg)
qed

lemma run_nonneg:
  "\<forall>e \<in> set es. steady_clock e \<Longrightarrow> 0 \<le> lastProcessingTime s
     \<Longrightarrow> 0 \<le> lastProcessingTime (run cv es s)"
proof (induction es arbitrary: s)
  case Nil
  then show ?case by simp
next
  case (Cons e es)
  show ?case
  proof (cases e)
    case (Java_allocates bytes)
    with Cons show ?thesis by simp
  next
    case (Native c)
    with Cons.prems have "0 \<le> lastProcessingTime (snd (invoke cv c s))"
      by (intro invoke_nonneg) simp_all
    with Cons Native show ?thesis by simp
  qed
qed

text \<open>
  Claim C8. \<^verbatim>\<open>getProcessingTime\<close> returns \<^verbatim>\<open>lastProcessingTime\<close> and leaves the whole
  state as it is; in the initial state it returns 0; after any sequence of events whose
  clock readings are steady it returns a non-negative number; and a native call changes
  \<^verbatim>\<open>lastProcessingTime\<close> only if it is a \<^verbatim>\<open>processFrameBytes\<close> call that returns an
  array, which then holds the duration of that call.
\<close>

theorem getProcessingTime_reads_metrics:
  assumes "\<forall>e \<in> set es. steady_clock e"
  shows "getProcessingTime s = (lastProcessingTime s, s)
         \<and> getProcessingTime (initial_state h) = (0, initial_state h)
         \<and> 0 \<le> fst (getProcessingTime (run cv es (initial_state h)))
         \<and> (\<forall>c. lastProcessingTime (snd (invoke cv c s)) \<noteq> lastProcessingTime s \<longrightarrow>
               (\<exists>env imageData width height flag out.
                   c = ProcessFrameBytes env imageData width height flag
                   \<and> fst (invoke cv c s) = Frame_result (Returned (Some out))
                   \<and> lastProcessingTime (snd (invoke cv c s))
                       = duration_ms (startTime env) (endTime env)))"
proof -
  have "0 \<le> lastProcessingTime (run cv es (initial_state h))"
    using assms by (intro run_nonneg) (simp_all add: initial_state_def)
  then show ?thesis
    using invoke_time [of cv _ s] by (simp add: getProcessingTime_def initial_state_def)
qed

lemma sample_passthrough_2x2:
  "processFrameBytes sample_opencv granting_env 0 2 2 False
     (initial_state [frame_2x2]\<lparr>logcat := l\<rparr>)
   = (Returned (Some 1),
      LOGI ''Frame processed in %ld ms'' [IntArg 7]
        (LOGI ''Passthrough mode: %dx%d image'' [IntArg 2, IntArg 2]
           (initial_state [frame_2x2]\<lparr>logcat := l\<rparr>)
         \<lparr>java_heap := [frame_2x2, frame_2x2], lastProcessingTime := 7\<rparr>))"
proof -
  let ?s = "initial_state [frame_2x2]\<lparr>logcat := l\<rparr>"
  have m: "continuous_Mat \<lparr>rows = 2, cols = 2, mtype = CV_8UC4, data = frame_2x2\<rparr>"
    by (simp add: continuous_Mat_def channels_def frame_2x2_def)
  have step: "applyStep5 sample_opencv \<lparr>rows = sint (2 :: jint), cols = sint (2 :: jint),
                      mtype = CV_8UC4, data = java_heap ?s ! 0\<rparr> 2 2 False ?s
                = (Inr \<lparr>rows = 2, cols = 2, mtype = CV_8UC4, data = frame_2x2\<rparr>,
                   LOGI ''Passthrough mode: %dx%d image'' [IntArg 2, IntArg 2] ?s)"
    using m by (simp add: applyStep5_def initial_state_def sample_copyTo_def)
  have d: "duration_ms (startTime granting_env) (endTime granting_env) = 7"
    by (simp add: duration_ms_def granting_env_def)
  from processFrameBytes_completes [of 0 ?s 2 2 granting_env sample_opencv False, OF _ _ _ _ _ step]
  show ?thesis
    by (simp add: initial_state_def frame_2x2_def d) (simp add: granting_env_def)
qed

theorem getProcessingTime_reads_metrics_witness:
  "getProcessingTime (initial_state []) = (0, initial_state [])
   \<and> 0 \<le> fst (getProcessingTime
        (run sample_opencv
           [Java_allocates frame_2x2, Native GetProcessingTime,
            Native (ProcessFrameBytes granting_env 0 2 2 False), Native ProcessFrame]
           (initial_state [])))
   \<and> fst (getProcessingTime
        (run sample_opencv
           [Java_allocates frame_2x2, Native GetProcessingTime,
            Native (ProcessFrameBytes granting_env 0 2 2 False), Native ProcessFrame]
           (initial_state []))) = 7"
proof -
  let ?es = "[Java_allocates frame_2x2, Native GetProcessingTime,
              Native (ProcessFrameBytes granting_env 0 2 2 False), Native ProcessFrame]"
  have s: "\<forall>e \<in> set ?es. steady_clock e" by (simp add: granting_env_def)
  have v: "lastProcessingTime (run sample_opencv ?es (initial_state [])) = 7"
    using sample_passthrough_2x2 [of "[]"]
    by (simp add: getProcessingTime_def initial_state_def processFrame_def LOGI_def)
  from getProcessingTime_reads_metrics [OF s, of "initial_state []" "[]" sample_opencv] v
  show ?thesis by (simp add: getProcessingTime_def)
qed

subsection \<open>The length check\<close>

lemma applyStep5_logs:
  "\<exists>l ls. logcat (snd (applyStep5 cv m width height flag s)) = logcat s @ l # ls"
  by (simp add: applyStep5_def LOGI_def Let_def split: sum.splits)

lemma step1_rejects_iff:
  assumes "imageData < length (java_heap s)"
  shows "rejected_at_step1 cv env imageData width height flag s
         \<longleftrightarrow> GetArrayLength (java_heap s) imageData \<noteq> width * height * 4"
proof
  assume r: "rejected_at_step1 cv env imageData width height flag s"
  show "GetArrayLength (java_heap s) imageData \<noteq> width * height * 4"
  proof
    assume eq: "GetArrayLength (java_heap s) imageData = width * height * 4"
    let ?m = "\<lparr>rows = sint height, cols = sint width, mtype = CV_8UC4,
                data = java_heap s ! imageData\<rparr>"
    obtain x s1 where step: "applyStep5 cv ?m width height flag s = (x, s1)"
      by (cases "applyStep5 cv ?m width height flag s")
    from applyStep5_logs [of cv ?m width height flag s] step
    obtain l ls where l: "logcat s1 = logcat s @ l # ls" by auto
    from r eq assms l show False
      by (auto simp add: rejected_at_step1_def processFrameBytes_def Let_def step channels_def
            LOGI_def LOGE_def GetByteArrayElements_def
          split: if_splits option.splits sum.splits prod.splits
          dest!: arg_cong [where f = logcat])
  qed
next
  assume "GetArrayLength (java_heap s) imageData \<noteq> width * height * 4"
  with assms show "rejected_at_step1 cv env imageData width height flag s"
    by (simp add: rejected_at_step1_def processFrameBytes_def)
qed

text \<open>
  Claim C9. STEP 1 rejects a call exactly when the length of the buffer and the
  integer product \<open>width * height * 4\<close> differ modulo \<open>2 ^ 32\<close>; the sign of width and
  height plays no part. So the calls with a 0 by 0 frame and an empty buffer, with a
  -1 by -1 frame and 4 bytes, and with a 65536 by 16384 frame and an empty buffer are
  not rejected at STEP 1.
\<close>

theorem step1_compares_modulo_2_32:
  assumes "imageData < length (java_heap s)"
  shows "(rejected_at_step1 cv env imageData width height flag s
            \<longleftrightarrow> int (length (java_heap s ! imageData)) mod 2 ^ 32
                \<noteq> (sint width * sint height * 4) mod 2 ^ 32)
         \<and> \<not> rejected_at_step1 cv env 0 0 0 flag (initial_state [[]])
         \<and> \<not> rejected_at_step1 cv env 0 (- 1) (- 1) flag (initial_state [[0, 0, 0, 0]])
         \<and> \<not> rejected_at_step1 cv env 0 65536 16384 flag (initial_state [[]])"
proof -
  have "rejected_at_step1 cv env imageData width height flag s
            \<longleftrightarrow> int (length (java_heap s ! imageData)) mod 2 ^ 32
                \<noteq> (sint width * sint height * 4) mod 2 ^ 32"
    by (simp only: step1_rejects_iff [OF assms] GetArrayLength_def length_check_mod)
  moreover have "\<not> rejected_at_step1 cv env 0 0 0 flag (initial_state [[]])"
    by (subst step1_rejects_iff) (simp_all add: initial_state_def GetArrayLength_def)
  moreover have "\<not> rejected_at_step1 cv env 0 (- 1) (- 1) flag (initial_state [[0, 0, 0, 0]])"
    by (subst step1_rejects_iff) (simp_all add: initial_state_def GetArrayLength_def)
  moreover have "\<not> rejected_at_step1 cv env 0 65536 16384 flag (initial_state [[]])"
    by (subst step1_rejects_iff) (simp_all add: initial_state_def GetArrayLength_def)
  ultimately show ?thesis by simp
qed

theorem step1_compares_modulo_2_32_witness:
  "\<not> rejected_at_step1 sample_opencv granting_env 0 65536 16384 False (initial_state [[]])
   \<and> \<not> rejected_at_step1 sample_opencv granting_env 0 0 0 False (initial_state [[]])
   \<and> fst (processFrameBytes sample_opencv granting_env 0 0 0 False (initial_state [[]]))
       = Returned (Some 1)
   \<and> fst (processFrameBytes sample_opencv granting_env 0 65536 16384 False (initial_state [[]]))
       = Uncaught bad_source
   \<and> rejected_at_step1 sample_opencv granting_env 0 2 2 False (initial_state [[1, 2, 3]])"
proof -
  have a: "fst (processFrameBytes sample_opencv granting_env 0 0 0 False (initial_state [[]]))
       = Returned (Some 1)"
    by (simp add: processFrameBytes_def GetArrayLength_def initial_state_def
          GetByteArrayElements_def granting_env_def channels_def applyStep5_def LOGI_def
          sample_copyTo_def empty_Mat_def NewByteArray_def SetByteArrayRegion_def)
  have b: "fst (processFrameBytes sample_opencv granting_env 0 65536 16384 False
                  (initial_state [[]])) = Uncaught bad_source"
    by (simp add: processFrameBytes_def GetArrayLength_def initial_state_def
          GetByteArrayElements_def granting_env_def channels_def applyStep5_def LOGI_def
          sample_copyTo_def continuous_Mat_def)
  from step1_compares_modulo_2_32 [of 0 "initial_state [[1, 2, 3]]" sample_opencv granting_env
      2 2 False]
  have "rejected_at_step1 sample_opencv granting_env 0 2 2 False (initial_state [[1, 2, 3]])
        \<and> \<not> rejected_at_step1 sample_opencv granting_env 0 65536 16384 False (initial_state [[]])
        \<and> \<not> rejected_at_step1 sample_opencv granting_env 0 0 0 False (initial_state [[]])"
    by (simp add: initial_state_def)
  with a b show ?thesis by simp
qed

end
